theory Spec2Isabelle
  imports Complex_Main
begin

section \<open>Data model\<close>

text \<open>
  The tables of \<^verbatim>\<open>src/server/src/db/schema.ts\<close>, one record per row type. Serial ids
  are natural numbers, timestamps are milliseconds since the epoch, and the numeric columns
  and JavaScript numbers are exact rationals: the conversions \<^verbatim>\<open>toString\<close> /
  \<^verbatim>\<open>parseFloat\<close> between a number and its numeric column are the identity here, so binary
  floating point and the rounding of a numeric(15,2) column are outside the model.
\<close>

datatype item_type = item | service

datatype transaction_status = draft | confirmed | paid | cancelled

datatype document_type =
  sales_note | payment_receipt | invoice | bast | purchase_order | tax_invoice | proforma_invoice

record store_profile =
  sp_id :: nat
  sp_name :: string
  sp_address :: string
  sp_phone :: string
  sp_email :: string
  sp_npwp :: string
  sp_created_at :: nat
  sp_updated_at :: nat

record catalog_item =
  ci_id :: nat
  ci_code :: string
  ci_name :: string
  ci_type :: item_type
  ci_unit_price :: rat
  ci_description :: "string option"
  ci_created_at :: nat
  ci_updated_at :: nat

record transaction =
  t_id :: nat
  transaction_number :: string
  customer_name :: string
  customer_address :: "string option"
  customer_phone :: "string option"
  customer_email :: "string option"
  status :: transaction_status
  subtotal :: rat
  ppn_enabled :: bool
  ppn_amount :: rat
  regional_tax_enabled :: bool
  regional_tax_amount :: rat
  pph22_enabled :: bool
  pph22_amount :: rat
  pph23_enabled :: bool
  pph23_amount :: rat
  stamp_duty_required :: bool
  stamp_duty_amount :: rat
  total_amount :: rat
  t_notes :: "string option"
  transaction_date :: nat
  t_created_at :: nat
  t_updated_at :: nat

record transaction_item =
  ti_id :: nat
  ti_transaction_id :: nat
  ti_catalog_item_id :: nat
  ti_quantity :: rat
  ti_unit_price :: rat
  ti_discount_percentage :: rat
  ti_line_total :: rat
  ti_created_at :: nat

record document =
  d_id :: nat
  d_transaction_id :: nat
  d_document_type :: document_type
  document_number :: string
  document_date :: nat
  recipient_name :: "string option"
  custom_notes :: "string option"
  html_content :: string
  d_created_at :: nat

text \<open>
  The database: the five tables in insertion order, and the next value of the serial
  sequence of each table the handlers insert into.
\<close>

record db =
  store_profiles :: "store_profile list"
  catalog_items :: "catalog_item list"
  transactions :: "transaction list"
  transaction_items :: "transaction_item list"
  documents :: "document list"
  next_transaction_id :: nat
  next_transaction_item_id :: nat
  next_document_id :: nat

text \<open>
  What a handler throws: \<open>Error m\<close> is \<^verbatim>\<open>new Error(m)\<close>, \<open>TypeError\<close> is the
  engine's error on reading a property of \<^verbatim>\<open>undefined\<close>, and \<open>DbError c\<close> is a
  rejection of the persistence layer (\<open>c\<close> names the violated constraint or the failed
  statement). A handler returns its outcome together with the database it leaves behind:
  an exception does not undo the statements that ran before it.
\<close>

datatype error = Error string | TypeError | DbError string

type_synonym 'a outcome = "(error + 'a) \<times> db"

text \<open>The platform clock: \<^verbatim>\<open>new Date()\<close> / \<^verbatim>\<open>Date.now()\<close> and \<^verbatim>\<open>getFullYear()\<close>.\<close>

record clock =
  clock_now :: nat
  clock_year :: nat

text \<open>
  An optional, nullable field of a zod input object: \<^verbatim>\<open>undefined\<close>, \<^verbatim>\<open>null\<close> or
  a value.
\<close>

datatype 'a field = Undefined | Null | Val 'a

section \<open>Strings of numbers\<close>

definition digit :: "nat \<Rightarrow> char" where
  "digit d = ''0123456789'' ! d"

text \<open>\<^verbatim>\<open>n.toString()\<close> and \<^verbatim>\<open>`${n}`\<close> of a non-negative integer.\<close>

fun toString :: "nat \<Rightarrow> string" where
  "toString n = (if n < 10 then [digit n] else toString (n div 10) @ [digit (n mod 10)])"

declare toString.simps [simp del]

definition padStart :: "nat \<Rightarrow> char \<Rightarrow> string \<Rightarrow> string" where
  "padStart n c s = replicate (n - length s) c @ s"

text \<open>\<^verbatim>\<open>s || null\<close>: the empty string is falsy, as \<^verbatim>\<open>undefined\<close> and \<^verbatim>\<open>null\<close> are.\<close>

fun or_null :: "string field \<Rightarrow> string option" where
  "or_null Undefined = None"
| "or_null Null = None"
| "or_null (Val s) = (if s = [] then None else Some s)"

section \<open>createTransaction\<close>

text \<open>
  \<^verbatim>\<open>createTransaction\<close> as implemented: the handler that selects from
  \<^verbatim>\<open>catalogItemsTable\<close> and inserts into \<^verbatim>\<open>transactionsTable\<close> and
  \<^verbatim>\<open>transactionItemsTable\<close>. (The sources also hold the scaffold of this handler, a
  declaration marked as a placeholder that returns zero amounts without touching the
  database; the implementation replaces it.) The items of the input are read in order; an
  empty list makes \<^verbatim>\<open>input.items[0].catalog_item_id\<close> throw.
\<close>

record item_input =
  catalog_item_id :: nat
  quantity :: rat
  unit_price :: rat
  discount_percentage :: rat

record create_transaction_input =
  c_customer_name :: string
  c_customer_address :: "string field"
  c_customer_phone :: "string field"
  c_customer_email :: "string field"
  c_ppn_enabled :: bool
  c_regional_tax_enabled :: bool
  c_pph22_enabled :: bool
  c_pph23_enabled :: bool
  c_notes :: "string field"
  c_transaction_date :: "nat option"
  items :: "item_input list"

definition select_catalog_item :: "db \<Rightarrow> nat \<Rightarrow> catalog_item list" where
  "select_catalog_item d i = filter (\<lambda>c. ci_id c = i) (catalog_items d)"

text \<open>The validation loop: the first item whose catalog entry is missing throws.\<close>

fun validate_items :: "db \<Rightarrow> item_input list \<Rightarrow> error option" where
  "validate_items d [] = None"
| "validate_items d (it # rest) =
     (if select_catalog_item d (catalog_item_id it) = []
      then Some (Error (''Catalog item with ID '' @ toString (catalog_item_id it) @ '' not found''))
      else validate_items d rest)"

definition lineTotal :: "item_input \<Rightarrow> rat" where
  "lineTotal it = quantity it * unit_price it * (1 - discount_percentage it / 100)"

definition calc_subtotal :: "item_input list \<Rightarrow> rat" where
  "calc_subtotal its = foldl (\<lambda>s it. s + lineTotal it) 0 its"

text \<open>
  An insert into \<^verbatim>\<open>transactions\<close>: the row gets the next serial id and the default
  timestamps; the primary key and the unique \<^verbatim>\<open>transaction_number\<close> are checked. The
  sequence advances whether or not the insert succeeds.
\<close>

definition insert_transaction :: "nat \<Rightarrow> transaction \<Rightarrow> db \<Rightarrow> transaction outcome" where
  "insert_transaction now vals d =
     (let row = vals\<lparr>t_id := next_transaction_id d, t_created_at := now, t_updated_at := now\<rparr>;
          d1 = d\<lparr>next_transaction_id := Suc (next_transaction_id d)\<rparr>
      in if list_ex (\<lambda>t. t_id t = t_id row) (transactions d)
         then (Inl (DbError ''transactions_pkey''), d1)
         else if list_ex (\<lambda>t. transaction_number t = transaction_number row) (transactions d)
         then (Inl (DbError ''transactions_transaction_number_unique''), d1)
         else (Inr row, d1\<lparr>transactions := transactions d @ [row]\<rparr>))"

definition insert_transaction_item :: "nat \<Rightarrow> transaction_item \<Rightarrow> db \<Rightarrow> transaction_item outcome" where
  "insert_transaction_item now vals d =
     (let row = vals\<lparr>ti_id := next_transaction_item_id d, ti_created_at := now\<rparr>;
          d1 = d\<lparr>next_transaction_item_id := Suc (next_transaction_item_id d)\<rparr>
      in if list_ex (\<lambda>r. ti_id r = ti_id row) (transaction_items d)
         then (Inl (DbError ''transaction_items_pkey''), d1)
         else (Inr row, d1\<lparr>transaction_items := transaction_items d @ [row]\<rparr>))"

text \<open>The loop that inserts one row per input item, in order.\<close>

fun insert_items :: "nat \<Rightarrow> nat \<Rightarrow> item_input list \<Rightarrow> db \<Rightarrow> unit outcome" where
  "insert_items now tid [] d = (Inr (), d)"
| "insert_items now tid (it # rest) d =
     (case insert_transaction_item now
         \<lparr>ti_id = 0, ti_transaction_id = tid, ti_catalog_item_id = catalog_item_id it,
          ti_quantity = quantity it, ti_unit_price = unit_price it,
          ti_discount_percentage = discount_percentage it, ti_line_total = lineTotal it,
          ti_created_at = 0\<rparr> d of
        (Inl e, d1) \<Rightarrow> (Inl e, d1)
      | (Inr _, d1) \<Rightarrow> insert_items now tid rest d1)"

definition createTransaction :: "clock \<Rightarrow> create_transaction_input \<Rightarrow> db \<Rightarrow> transaction outcome" where
  "createTransaction clk input d =
     (let transactionNumber = ''TRX-'' @ toString (clock_now clk) in
      case items input of
        [] \<Rightarrow> (Inl TypeError, d)
      | _ # _ \<Rightarrow>
     (case validate_items d (items input) of
        Some e \<Rightarrow> (Inl e, d)
      | None \<Rightarrow>
     (let subtotal = calc_subtotal (items input);
          ppnAmount = (if c_ppn_enabled input then subtotal * (11 / 100) else 0);
          regionalTaxAmount = (if c_regional_tax_enabled input then subtotal * (1 / 100) else 0);
          pph22Amount = (if c_pph22_enabled input then subtotal * (2 / 1000) else 0);
          pph23Amount = (if c_pph23_enabled input then subtotal * (2 / 100) else 0);
          totalBeforeStampDuty = subtotal + ppnAmount + regionalTaxAmount - pph22Amount - pph23Amount;
          stampDutyRequired = (totalBeforeStampDuty \<ge> 5000000);
          stampDutyAmount = (if stampDutyRequired then 10000 else 0);
          totalAmount = totalBeforeStampDuty + stampDutyAmount
      in case insert_transaction (clock_now clk)
           \<lparr>t_id = 0, transaction_number = transactionNumber,
            customer_name = c_customer_name input,
            customer_address = or_null (c_customer_address input),
            customer_phone = or_null (c_customer_phone input),
            customer_email = or_null (c_customer_email input),
            status = draft,
            subtotal = subtotal,
            ppn_enabled = c_ppn_enabled input, ppn_amount = ppnAmount,
            regional_tax_enabled = c_regional_tax_enabled input,
            regional_tax_amount = regionalTaxAmount,
            pph22_enabled = c_pph22_enabled input, pph22_amount = pph22Amount,
            pph23_enabled = c_pph23_enabled input, pph23_amount = pph23Amount,
            stamp_duty_required = stampDutyRequired, stamp_duty_amount = stampDutyAmount,
            total_amount = totalAmount,
            t_notes = or_null (c_notes input),
            transaction_date =
              (case c_transaction_date input of None \<Rightarrow> clock_now clk | Some dt \<Rightarrow> dt),
            t_created_at = 0, t_updated_at = 0\<rparr> d of
           (Inl e, d1) \<Rightarrow> (Inl e, d1)
         | (Inr transaction, d1) \<Rightarrow>
             (case insert_items (clock_now clk) (t_id transaction) (items input) d1 of
                (Inl e, d2) \<Rightarrow> (Inl e, d2)
              | (Inr _, d2) \<Rightarrow> (Inr transaction, d2)))))"

section \<open>updateTransaction\<close>

record update_transaction_input =
  u_id :: nat
  u_customer_name :: "string option"
  u_customer_address :: "string field"
  u_customer_phone :: "string field"
  u_customer_email :: "string field"
  u_status :: "transaction_status option"
  u_ppn_enabled :: "bool option"
  u_regional_tax_enabled :: "bool option"
  u_pph22_enabled :: "bool option"
  u_pph23_enabled :: "bool option"
  u_notes :: "string field"
  u_transaction_date :: "nat option"

text \<open>\<^verbatim>\<open>if (input.f !== undefined) updatedFields.f = input.f\<close>, for a nullable column.\<close>

fun set_nullable :: "'a field \<Rightarrow> 'a option \<Rightarrow> 'a option" where
  "set_nullable Undefined old = old"
| "set_nullable Null old = None"
| "set_nullable (Val v) old = Some v"

text \<open>The same for a column that is not nullable; \<open>None\<close> is \<^verbatim>\<open>undefined\<close>.\<close>

fun set_value :: "'a option \<Rightarrow> 'a \<Rightarrow> 'a" where
  "set_value None old = old"
| "set_value (Some v) old = v"

definition select_transaction :: "db \<Rightarrow> nat \<Rightarrow> transaction list" where
  "select_transaction d i = filter (\<lambda>t. t_id t = i) (transactions d)"

text \<open>
  The items of a transaction, inner-joined with their catalog entries: one row per pair of
  an item row of the transaction and a catalog row with the item's \<^verbatim>\<open>catalog_item_id\<close>.
\<close>

definition select_items_joined :: "db \<Rightarrow> nat \<Rightarrow> (transaction_item \<times> catalog_item) list" where
  "select_items_joined d tid =
     concat (map (\<lambda>r. map (\<lambda>c. (r, c)) (select_catalog_item d (ti_catalog_item_id r)))
                 (filter (\<lambda>r. ti_transaction_id r = tid) (transaction_items d)))"

definition shouldRecalculate :: "update_transaction_input \<Rightarrow> bool" where
  "shouldRecalculate input \<longleftrightarrow>
     u_ppn_enabled input \<noteq> None \<or> u_regional_tax_enabled input \<noteq> None \<or>
     u_pph22_enabled input \<noteq> None \<or> u_pph23_enabled input \<noteq> None"

text \<open>
  The patch object \<^verbatim>\<open>updatedFields\<close> is the function it applies to a row: first the
  audit timestamp and the supplied scalar fields, ...
\<close>

definition basicFields :: "clock \<Rightarrow> update_transaction_input \<Rightarrow> transaction \<Rightarrow> transaction" where
  "basicFields clk input t =
     t\<lparr>t_updated_at := clock_now clk,
       customer_name := set_value (u_customer_name input) (customer_name t),
       customer_address := set_nullable (u_customer_address input) (customer_address t),
       customer_phone := set_nullable (u_customer_phone input) (customer_phone t),
       customer_email := set_nullable (u_customer_email input) (customer_email t),
       status := set_value (u_status input) (status t),
       t_notes := set_nullable (u_notes input) (t_notes t),
       transaction_date := set_value (u_transaction_date input) (transaction_date t)\<rparr>"

text \<open>
  ... then, when a tax flag is supplied, the recalculated fields. The flags that are not
  supplied come from \<^verbatim>\<open>existingTransaction\<close>, the subtotal from the stored line totals.
\<close>

definition taxFields ::
  "update_transaction_input \<Rightarrow> transaction \<Rightarrow> (transaction_item \<times> catalog_item) list \<Rightarrow>
   transaction \<Rightarrow> transaction" where
  "taxFields input existingTransaction transactionItems t =
     (let subtotal = foldl (\<lambda>sum r. sum + ti_line_total (fst r)) 0 transactionItems;
          ppnEnabled = set_value (u_ppn_enabled input) (ppn_enabled existingTransaction);
          regionalTaxEnabled =
            set_value (u_regional_tax_enabled input) (regional_tax_enabled existingTransaction);
          pph22Enabled = set_value (u_pph22_enabled input) (pph22_enabled existingTransaction);
          pph23Enabled = set_value (u_pph23_enabled input) (pph23_enabled existingTransaction);
          ppnAmount = (if ppnEnabled then subtotal * (11 / 100) else 0);
          regionalTaxAmount = (if regionalTaxEnabled then subtotal * (1 / 10) else 0);
          pph22Amount = (if pph22Enabled then subtotal * (22 / 1000) else 0);
          pph23Amount = (if pph23Enabled then subtotal * (2 / 100) else 0);
          stampDutyRequired = (subtotal \<ge> 5000000);
          stampDutyAmount = (if stampDutyRequired then 10000 else 0);
          totalAmount =
            subtotal + ppnAmount + regionalTaxAmount - pph22Amount - pph23Amount + stampDutyAmount
      in t\<lparr>subtotal := subtotal,
           ppn_enabled := ppnEnabled, ppn_amount := ppnAmount,
           regional_tax_enabled := regionalTaxEnabled, regional_tax_amount := regionalTaxAmount,
           pph22_enabled := pph22Enabled, pph22_amount := pph22Amount,
           pph23_enabled := pph23Enabled, pph23_amount := pph23Amount,
           stamp_duty_required := stampDutyRequired, stamp_duty_amount := stampDutyAmount,
           total_amount := totalAmount\<rparr>)"

text \<open>
  \<^verbatim>\<open>db.update(transactionsTable).set(patch).where(eq(id, i)).returning()\<close>: every row
  with the id is patched in place; the patched rows are returned.
\<close>

definition update_transactions ::
  "nat \<Rightarrow> (transaction \<Rightarrow> transaction) \<Rightarrow> db \<Rightarrow> transaction list \<times> db" where
  "update_transactions i patch d =
     (map patch (select_transaction d i),
      d\<lparr>transactions := map (\<lambda>t. if t_id t = i then patch t else t) (transactions d)\<rparr>)"

definition updateTransaction :: "clock \<Rightarrow> update_transaction_input \<Rightarrow> db \<Rightarrow> transaction outcome" where
  "updateTransaction clk input d =
     (case select_transaction d (u_id input) of
        [] \<Rightarrow> (Inl (Error (''Transaction with id '' @ toString (u_id input) @ '' not found'')), d)
      | existingTransaction # _ \<Rightarrow>
          (let updatedFields =
                 (if shouldRecalculate input
                  then taxFields input existingTransaction (select_items_joined d (u_id input))
                         \<circ> basicFields clk input
                  else basicFields clk input)
           in case update_transactions (u_id input) updatedFields d of
                ([], d1) \<Rightarrow> (Inl TypeError, d1)
              | (updatedTransaction # _, d1) \<Rightarrow> (Inr updatedTransaction, d1)))"

text \<open>The input \<^verbatim>\<open>{ id: i }\<close>: every optional field is \<^verbatim>\<open>undefined\<close>.\<close>

definition only_id :: "nat \<Rightarrow> update_transaction_input" where
  "only_id i =
     \<lparr>u_id = i, u_customer_name = None, u_customer_address = Undefined,
      u_customer_phone = Undefined, u_customer_email = Undefined, u_status = None,
      u_ppn_enabled = None, u_regional_tax_enabled = None, u_pph22_enabled = None,
      u_pph23_enabled = None, u_notes = Undefined, u_transaction_date = None\<rparr>"

section \<open>deleteTransaction\<close>

text \<open>
  \<^verbatim>\<open>db.delete(transactionsTable).where(eq(id, i))\<close>: the rows with the id go, and with
  them (\<^verbatim>\<open>onDelete: 'cascade'\<close> of both foreign keys) the item rows and the document rows
  that reference the id. The result is the number of transaction rows deleted.
\<close>

definition delete_transactions :: "nat \<Rightarrow> db \<Rightarrow> nat \<times> db" where
  "delete_transactions i d =
     (length (select_transaction d i),
      d\<lparr>transactions := filter (\<lambda>t. t_id t \<noteq> i) (transactions d),
        transaction_items := filter (\<lambda>r. ti_transaction_id r \<noteq> i) (transaction_items d),
        documents := filter (\<lambda>r. d_transaction_id r \<noteq> i) (documents d)\<rparr>)"

definition deleteTransaction :: "nat \<Rightarrow> db \<Rightarrow> bool outcome" where
  "deleteTransaction i d =
     (case select_transaction d i of
        [] \<Rightarrow> (Inl (Error ''Transaction not found''), d)
      | transaction # _ \<Rightarrow>
          if status transaction \<noteq> draft
          then (Inl (Error ''Only draft transactions can be deleted''), d)
          else (case delete_transactions i d of (rowCount, d1) \<Rightarrow> (Inr (rowCount > 0), d1)))"

section \<open>generateDocument\<close>

record generate_document_input =
  g_transaction_id :: nat
  g_document_type :: document_type
  g_document_date :: "nat option"
  g_recipient_name :: "string field"
  g_custom_notes :: "string field"

text \<open>The string value of each member of the enum \<^verbatim>\<open>document_type\<close>.\<close>

fun document_type_name :: "document_type \<Rightarrow> string" where
  "document_type_name sales_note = ''sales_note''"
| "document_type_name payment_receipt = ''payment_receipt''"
| "document_type_name invoice = ''invoice''"
| "document_type_name bast = ''bast''"
| "document_type_name purchase_order = ''purchase_order''"
| "document_type_name tax_invoice = ''tax_invoice''"
| "document_type_name proforma_invoice = ''proforma_invoice''"

definition prefixes :: "(string \<times> string) list" where
  "prefixes =
     [(''sales_note'', ''SN''), (''payment_receipt'', ''PR''), (''invoice'', ''INV''),
      (''bast'', ''BAST''), (''purchase_order'', ''PO''), (''tax_invoice'', ''TAX''),
      (''proforma_invoice'', ''PI'')]"

definition generateDocumentNumber :: "clock \<Rightarrow> string \<Rightarrow> nat \<Rightarrow> string" where
  "generateDocumentNumber clk documentType i =
     (let currentYear = clock_year clk;
          paddedId = padStart 4 (CHR ''0'') (toString i);
          prefix = (case map_of prefixes documentType of Some p \<Rightarrow> p | None \<Rightarrow> ''DOC'')
      in prefix @ ''-'' @ toString currentYear @ ''-'' @ paddedId)"

text \<open>
  \<^verbatim>\<open>generateHtmlContent\<close> only builds a string from its arguments, with the platform's
  \<^verbatim>\<open>Intl.NumberFormat\<close> and \<^verbatim>\<open>toLocaleDateString\<close>, and throws on nothing the
  handler passes to it; it touches no table. It is a parameter of the handler, applied to
  the arguments the handler passes: the type's name, the transaction, the joined items,
  the store profile and the inserted record with the final number.
\<close>

type_synonym html_generator =
  "string \<Rightarrow> transaction \<Rightarrow> (transaction_item \<times> catalog_item) list \<Rightarrow> store_profile \<Rightarrow>
   document \<Rightarrow> string"

definition insert_document :: "nat \<Rightarrow> document \<Rightarrow> db \<Rightarrow> document outcome" where
  "insert_document now vals d =
     (let row = vals\<lparr>d_id := next_document_id d, d_created_at := now\<rparr>;
          d1 = d\<lparr>next_document_id := Suc (next_document_id d)\<rparr>
      in if list_ex (\<lambda>r. d_id r = d_id row) (documents d)
         then (Inl (DbError ''documents_pkey''), d1)
         else (Inr row, d1\<lparr>documents := documents d @ [row]\<rparr>))"

text \<open>
  \<^verbatim>\<open>db.update(documentsTable).set({document_number, html_content}).where(eq(id, i))
  .returning()\<close>. The statement is a call to the persistence layer, which may reject it
  (a lost connection, a timeout); \<open>rejected\<close> says whether it does, and then no row changes.
\<close>

definition update_document ::
  "bool \<Rightarrow> nat \<Rightarrow> string \<Rightarrow> string \<Rightarrow> db \<Rightarrow> document list outcome" where
  "update_document rejected i documentNumber htmlContent d =
     (if rejected then (Inl (DbError ''update documents''), d)
      else
        (let patch = (\<lambda>r. r\<lparr>document_number := documentNumber, html_content := htmlContent\<rparr>)
         in (Inr (map patch (filter (\<lambda>r. d_id r = i) (documents d))),
             d\<lparr>documents := map (\<lambda>r. if d_id r = i then patch r else r) (documents d)\<rparr>)))"

definition generateDocument ::
  "clock \<Rightarrow> html_generator \<Rightarrow> bool \<Rightarrow> generate_document_input \<Rightarrow> db \<Rightarrow> document outcome" where
  "generateDocument clk generateHtmlContent update_rejected input d =
     (case select_transaction d (g_transaction_id input) of
        [] \<Rightarrow>
          (Inl (Error (''Transaction with id '' @ toString (g_transaction_id input) @ '' not found'')), d)
      | transaction # _ \<Rightarrow>
     (case select_items_joined d (g_transaction_id input) of
        [] \<Rightarrow>
          (Inl (Error (''No items found for transaction '' @ toString (g_transaction_id input))), d)
      | ir # irs \<Rightarrow>
     (case store_profiles d of
        [] \<Rightarrow> (Inl (Error ''Store profile not found''), d)
      | storeProfile # _ \<Rightarrow>
     (let itemResults = ir # irs;
          documentDate = (case g_document_date input of None \<Rightarrow> clock_now clk | Some dt \<Rightarrow> dt)
      in case insert_document (clock_now clk)
           \<lparr>d_id = 0, d_transaction_id = g_transaction_id input,
            d_document_type = g_document_type input,
            document_number = ''TEMP'',
            document_date = documentDate,
            recipient_name = or_null (g_recipient_name input),
            custom_notes = or_null (g_custom_notes input),
            html_content = [],
            d_created_at = 0\<rparr> d of
           (Inl e, d1) \<Rightarrow> (Inl e, d1)
         | (Inr documentRecord, d1) \<Rightarrow>
             (let documentNumber =
                    generateDocumentNumber clk (document_type_name (g_document_type input))
                      (d_id documentRecord);
                  htmlContent =
                    generateHtmlContent (document_type_name (g_document_type input)) transaction
                      itemResults storeProfile
                      (documentRecord\<lparr>document_number := documentNumber,
                                      document_date := documentDate\<rparr>)
              in case update_document update_rejected (d_id documentRecord) documentNumber
                        htmlContent d1 of
                   (Inl e, d2) \<Rightarrow> (Inl e, d2)
                 | (Inr [], d2) \<Rightarrow> (Inl TypeError, d2)
                 | (Inr (finalDocument # _), d2) \<Rightarrow> (Inr finalDocument, d2))))))"

section \<open>Example data\<close>

text \<open>
  The fixtures of the repository's tests: a clock, a store profile, the catalog entry
  \<^verbatim>\<open>TEST-001\<close>, and a database that holds only them.
\<close>

definition ex_clock :: clock where
  "ex_clock = \<lparr>clock_now = 1705276800000, clock_year = 2024\<rparr>"

definition ex_store :: store_profile where
  "ex_store = \<lparr>sp_id = 1, sp_name = ''Test Store'', sp_address = ''123 Test Street'',
     sp_phone = ''+1234567890'', sp_email = ''store@test.com'', sp_npwp = ''12.345.678.9-012.000'',
     sp_created_at = 0, sp_updated_at = 0\<rparr>"

definition ex_catalog_item :: catalog_item where
  "ex_catalog_item = \<lparr>ci_id = 1, ci_code = ''TEST-001'', ci_name = ''Test Item'', ci_type = item,
     ci_unit_price = 1000, ci_description = Some ''Test item for transactions'',
     ci_created_at = 0, ci_updated_at = 0\<rparr>"

definition ex_db :: db where
  "ex_db = \<lparr>store_profiles = [ex_store], catalog_items = [ex_catalog_item], transactions = [],
     transaction_items = [], documents = [],
     next_transaction_id = 1, next_transaction_item_id = 1, next_document_id = 1\<rparr>"

text \<open>The \<^verbatim>\<open>baseInput\<close> of the createTransaction tests, with the given items and flags.\<close>

definition ex_line :: "rat \<Rightarrow> rat \<Rightarrow> rat \<Rightarrow> item_input" where
  "ex_line q p disc = \<lparr>catalog_item_id = 1, quantity = q, unit_price = p, discount_percentage = disc\<rparr>"

definition ex_create :: "bool \<Rightarrow> bool \<Rightarrow> bool \<Rightarrow> bool \<Rightarrow> item_input list \<Rightarrow> create_transaction_input" where
  "ex_create ppn regional p22 p23 its =
     \<lparr>c_customer_name = ''John Doe'', c_customer_address = Val ''123 Main St'',
      c_customer_phone = Val ''081234567890'', c_customer_email = Val ''john@example.com'',
      c_ppn_enabled = ppn, c_regional_tax_enabled = regional, c_pph22_enabled = p22,
      c_pph23_enabled = p23, c_notes = Val ''Test transaction'',
      c_transaction_date = Some 1705276800000, items = its\<rparr>"

text \<open>
  The fixture of the updateTransaction tests: transaction 1 with the given status and
  stored amounts (PPN enabled, the other taxes disabled), and one item row of the given
  line total.
\<close>

definition ex_transaction :: "transaction_status \<Rightarrow> rat \<Rightarrow> rat \<Rightarrow> rat \<Rightarrow> transaction" where
  "ex_transaction st sub ppn tot =
     \<lparr>t_id = 1, transaction_number = ''TRX-001'', customer_name = ''Test Customer'',
      customer_address = Some ''123 Test Street'', customer_phone = Some ''+1234567890'',
      customer_email = Some ''test@example.com'', status = st, subtotal = sub,
      ppn_enabled = True, ppn_amount = ppn,
      regional_tax_enabled = False, regional_tax_amount = 0,
      pph22_enabled = False, pph22_amount = 0, pph23_enabled = False, pph23_amount = 0,
      stamp_duty_required = False, stamp_duty_amount = 0, total_amount = tot,
      t_notes = Some ''Test transaction'', transaction_date = 1704067200000,
      t_created_at = 0, t_updated_at = 0\<rparr>"

definition ex_item :: "rat \<Rightarrow> transaction_item" where
  "ex_item tot =
     \<lparr>ti_id = 1, ti_transaction_id = 1, ti_catalog_item_id = 1, ti_quantity = tot / 100,
      ti_unit_price = 100, ti_discount_percentage = 0, ti_line_total = tot, ti_created_at = 0\<rparr>"

definition ex_db_with :: "transaction \<Rightarrow> transaction_item list \<Rightarrow> db" where
  "ex_db_with t its =
     ex_db\<lparr>transactions := [t], transaction_items := its,
           next_transaction_id := 2, next_transaction_item_id := 2\<rparr>"

definition ex_generate :: "document_type \<Rightarrow> generate_document_input" where
  "ex_generate ty =
     \<lparr>g_transaction_id = 1, g_document_type = ty, g_document_date = None,
      g_recipient_name = Undefined, g_custom_notes = Undefined\<rparr>"

definition ex_html :: html_generator where
  "ex_html ty t its sp doc = ''<html>'' @ document_number doc @ ''</html>''"

section \<open>Auxiliary definitions\<close>

text \<open>
  The row \<^verbatim>\<open>createTransaction\<close> inserts, as a function of its input: the values of the
  handler's \<^verbatim>\<open>.values({...})\<close> with the id and the timestamps the insert assigns.
\<close>

definition created_transaction :: "clock \<Rightarrow> create_transaction_input \<Rightarrow> db \<Rightarrow> transaction" where
  "created_transaction clk input d =
     (let subtotal = calc_subtotal (items input);
          ppnAmount = (if c_ppn_enabled input then subtotal * (11 / 100) else 0);
          regionalTaxAmount = (if c_regional_tax_enabled input then subtotal * (1 / 100) else 0);
          pph22Amount = (if c_pph22_enabled input then subtotal * (2 / 1000) else 0);
          pph23Amount = (if c_pph23_enabled input then subtotal * (2 / 100) else 0);
          totalBeforeStampDuty = subtotal + ppnAmount + regionalTaxAmount - pph22Amount - pph23Amount;
          stampDutyRequired = (totalBeforeStampDuty \<ge> 5000000);
          stampDutyAmount = (if stampDutyRequired then 10000 else 0);
          totalAmount = totalBeforeStampDuty + stampDutyAmount
      in \<lparr>t_id = next_transaction_id d, transaction_number = ''TRX-'' @ toString (clock_now clk),
            customer_name = c_customer_name input,
            customer_address = or_null (c_customer_address input),
            customer_phone = or_null (c_customer_phone input),
            customer_email = or_null (c_customer_email input),
            status = draft,
            subtotal = subtotal,
            ppn_enabled = c_ppn_enabled input, ppn_amount = ppnAmount,
            regional_tax_enabled = c_regional_tax_enabled input,
            regional_tax_amount = regionalTaxAmount,
            pph22_enabled = c_pph22_enabled input, pph22_amount = pph22Amount,
            pph23_enabled = c_pph23_enabled input, pph23_amount = pph23Amount,
            stamp_duty_required = stampDutyRequired, stamp_duty_amount = stampDutyAmount,
            total_amount = totalAmount,
            t_notes = or_null (c_notes input),
            transaction_date =
              (case c_transaction_date input of None \<Rightarrow> clock_now clk | Some dt \<Rightarrow> dt),
            t_created_at = clock_now clk, t_updated_at = clock_now clk\<rparr>)"

text \<open>
  The patch \<^verbatim>\<open>updatedFields\<close> that \<^verbatim>\<open>updateTransaction\<close> applies, given the
  row it found.
\<close>

definition update_patch ::
  "clock \<Rightarrow> update_transaction_input \<Rightarrow> db \<Rightarrow> transaction \<Rightarrow> transaction \<Rightarrow> transaction" where
  "update_patch clk input d existingTransaction =
     (if shouldRecalculate input
      then taxFields input existingTransaction (select_items_joined d (u_id input))
             \<circ> basicFields clk input
      else basicFields clk input)"

text \<open>
  The invariant of the monetary fields as the code keeps it: the two withholding taxes are
  subtracted, a disabled tax has amount zero, and an enabled tax has amount zero exactly
  when the subtotal is zero.
\<close>

definition tax_amount_ok :: "bool \<Rightarrow> rat \<Rightarrow> rat \<Rightarrow> bool" where
  "tax_amount_ok enabled amount sub = (if enabled then (amount = 0) = (sub = 0) else amount = 0)"

definition tax_invariant :: "transaction \<Rightarrow> bool" where
  "tax_invariant t \<longleftrightarrow>
     total_amount t =
       subtotal t + ppn_amount t + regional_tax_amount t - pph22_amount t - pph23_amount t
         + stamp_duty_amount t \<and>
     tax_amount_ok (ppn_enabled t) (ppn_amount t) (subtotal t) \<and>
     tax_amount_ok (regional_tax_enabled t) (regional_tax_amount t) (subtotal t) \<and>
     tax_amount_ok (pph22_enabled t) (pph22_amount t) (subtotal t) \<and>
     tax_amount_ok (pph23_enabled t) (pph23_amount t) (subtotal t)"

text \<open>
  The invariant in the words of the specification: every tax is added, and an amount is
  zero exactly when its flag is false.
\<close>

definition spec_tax_invariant :: "transaction \<Rightarrow> bool" where
  "spec_tax_invariant t \<longleftrightarrow>
     total_amount t =
       subtotal t + ppn_amount t + regional_tax_amount t + pph22_amount t + pph23_amount t
         + stamp_duty_amount t \<and>
     (ppn_amount t = 0) = (\<not> ppn_enabled t) \<and>
     (regional_tax_amount t = 0) = (\<not> regional_tax_enabled t) \<and>
     (pph22_amount t = 0) = (\<not> pph22_enabled t) \<and>
     (pph23_amount t = 0) = (\<not> pph23_enabled t)"

text \<open>
  The stamp-duty rule in the words of the specification: required exactly when the total
  before stamp duty reaches 5,000,000, and then 10,000. The total before stamp duty
  subtracts the withholding taxes, as \<^verbatim>\<open>totalBeforeStampDuty\<close> of createTransaction does.
\<close>

definition pre_stamp_duty_total :: "transaction \<Rightarrow> rat" where
  "pre_stamp_duty_total t =
     subtotal t + ppn_amount t + regional_tax_amount t - pph22_amount t - pph23_amount t"

definition spec_stamp_duty :: "transaction \<Rightarrow> bool" where
  "spec_stamp_duty t \<longleftrightarrow>
     stamp_duty_required t = (pre_stamp_duty_total t \<ge> 5000000) \<and>
     stamp_duty_amount t = (if stamp_duty_required t then 10000 else 0)"

text \<open>
  The sum of the stored line totals of the persisted items of a transaction (joined with
  the catalog, as updateTransaction reads them).
\<close>

definition stored_subtotal :: "db \<Rightarrow> nat \<Rightarrow> rat" where
  "stored_subtotal d i = sum_list (map (\<lambda>r. ti_line_total (fst r)) (select_items_joined d i))"

text \<open>
  A stored row \<open>e\<close> agrees with a recalculated row \<open>u\<close> when the recalculation leaves
  its subtotal and its regional, PPh 22, PPh 23 and stamp-duty amounts as stored, and the
  stored total is the signed sum of the stored amounts.
\<close>

definition agrees_with :: "transaction \<Rightarrow> transaction \<Rightarrow> bool" where
  "agrees_with e u \<longleftrightarrow>
     subtotal e = subtotal u \<and>
     regional_tax_amount e = regional_tax_amount u \<and>
     pph22_amount e = pph22_amount u \<and>
     pph23_amount e = pph23_amount u \<and>
     stamp_duty_amount e = stamp_duty_amount u \<and>
     total_amount e =
       subtotal e + ppn_amount e + regional_tax_amount e - pph22_amount e - pph23_amount e
         + stamp_duty_amount e"

text \<open>
  The prefix of each document type in the words of the specification.
\<close>

fun spec_type_prefix :: "document_type \<Rightarrow> string" where
  "spec_type_prefix sales_note = ''SN''"
| "spec_type_prefix payment_receipt = ''PR''"
| "spec_type_prefix invoice = ''INV''"
| "spec_type_prefix bast = ''BAST''"
| "spec_type_prefix purchase_order = ''PO''"
| "spec_type_prefix tax_invoice = ''TAX''"
| "spec_type_prefix proforma_invoice = ''PI''"

text \<open>
  The two rows of \<^verbatim>\<open>generateDocument\<close>: the placeholder that the insert stores, and the
  row after the update, for the transaction, joined items and store profile it loaded.
\<close>

definition placeholder_document :: "clock \<Rightarrow> generate_document_input \<Rightarrow> db \<Rightarrow> document" where
  "placeholder_document clk input d =
     \<lparr>d_id = next_document_id d, d_transaction_id = g_transaction_id input,
      d_document_type = g_document_type input,
      document_number = ''TEMP'',
      document_date = (case g_document_date input of None \<Rightarrow> clock_now clk | Some dt \<Rightarrow> dt),
      recipient_name = or_null (g_recipient_name input),
      custom_notes = or_null (g_custom_notes input),
      html_content = [],
      d_created_at = clock_now clk\<rparr>"

definition final_document ::
  "clock \<Rightarrow> html_generator \<Rightarrow> generate_document_input \<Rightarrow> db \<Rightarrow> transaction \<Rightarrow>
   (transaction_item \<times> catalog_item) list \<Rightarrow> store_profile \<Rightarrow> document" where
  "final_document clk generateHtmlContent input d t its sp =
     (let p = placeholder_document clk input d;
          documentNumber =
            generateDocumentNumber clk (document_type_name (g_document_type input)) (d_id p)
      in p\<lparr>document_number := documentNumber,
           html_content :=
             generateHtmlContent (document_type_name (g_document_type input)) t its sp
               (p\<lparr>document_number := documentNumber\<rparr>)\<rparr>)"

section \<open>Lemmas about createTransaction\<close>

lemma insert_transaction_item_frame:
  "insert_transaction_item now vals d = (r, d') \<Longrightarrow>
     transactions d' = transactions d \<and> catalog_items d' = catalog_items d \<and>
     documents d' = documents d \<and> store_profiles d' = store_profiles d"
  by (auto simp: insert_transaction_item_def Let_def split: if_splits)

lemma insert_items_frame:
  "insert_items now tid its d = (r, d') \<Longrightarrow>
     transactions d' = transactions d \<and> catalog_items d' = catalog_items d \<and>
     documents d' = documents d \<and> store_profiles d' = store_profiles d"
proof (induction its arbitrary: d)
  case Nil
  then show ?case by simp
next
  case (Cons it rest)
  obtain a d1 where step: "insert_transaction_item now
         \<lparr>ti_id = 0, ti_transaction_id = tid, ti_catalog_item_id = catalog_item_id it,
          ti_quantity = quantity it, ti_unit_price = unit_price it,
          ti_discount_percentage = discount_percentage it, ti_line_total = lineTotal it,
          ti_created_at = 0\<rparr> d = (a, d1)"
    by (cases "insert_transaction_item now
         \<lparr>ti_id = 0, ti_transaction_id = tid, ti_catalog_item_id = catalog_item_id it,
          ti_quantity = quantity it, ti_unit_price = unit_price it,
          ti_discount_percentage = discount_percentage it, ti_line_total = lineTotal it,
          ti_created_at = 0\<rparr> d")
  note fr = insert_transaction_item_frame [OF step]
  show ?case
  proof (cases a)
    case (Inl e)
    with step Cons.prems fr show ?thesis by simp
  next
    case (Inr x)
    with step Cons.prems have "insert_items now tid rest d1 = (r, d')" by simp
    from Cons.IH [OF this] fr show ?thesis by simp
  qed
qed

lemma createTransaction_unfold:
  "createTransaction clk input d =
     (case items input of
        [] \<Rightarrow> (Inl TypeError, d)
      | _ # _ \<Rightarrow>
     (case validate_items d (items input) of
        Some e \<Rightarrow> (Inl e, d)
      | None \<Rightarrow>
     (let d1 = d\<lparr>next_transaction_id := Suc (next_transaction_id d)\<rparr>
      in if list_ex (\<lambda>t. t_id t = next_transaction_id d) (transactions d)
         then (Inl (DbError ''transactions_pkey''), d1)
         else if list_ex (\<lambda>t. transaction_number t = ''TRX-'' @ toString (clock_now clk))
                   (transactions d)
         then (Inl (DbError ''transactions_transaction_number_unique''), d1)
         else (case insert_items (clock_now clk) (next_transaction_id d) (items input)
                      (d1\<lparr>transactions := transactions d @ [created_transaction clk input d]\<rparr>) of
                 (Inl e, d2) \<Rightarrow> (Inl e, d2)
               | (Inr _, d2) \<Rightarrow> (Inr (created_transaction clk input d), d2)))))"
proof (cases "items input")
  case Nil
  then show ?thesis by (simp add: createTransaction_def)
next
  case (Cons it its)
  show ?thesis
  proof (cases "validate_items d (items input)")
    case None
    note unf = createTransaction_def created_transaction_def insert_transaction_def Let_def
    show ?thesis
    proof (cases "list_ex (\<lambda>t. t_id t = next_transaction_id d) (transactions d)")
      case True
      with Cons None show ?thesis
        by (simp add: unf del: validate_items.simps insert_items.simps split del: if_split
            cong: if_cong)
    next
      case pk: False
      show ?thesis
      proof (cases "list_ex (\<lambda>t. transaction_number t = ''TRX-'' @ toString (clock_now clk))
                      (transactions d)")
        case True
        with Cons None pk show ?thesis
          by (simp add: unf del: validate_items.simps insert_items.simps split del: if_split
              cong: if_cong)
      next
        case False
        with Cons None pk show ?thesis
          by (simp add: unf del: validate_items.simps insert_items.simps split del: if_split
              cong: if_cong prod.case_cong sum.case_cong)
      qed
    qed
  next
    case (Some e)
    with Cons show ?thesis
      by (simp add: createTransaction_def del: validate_items.simps)
  qed
qed

lemma createTransaction_Inr:
  assumes "createTransaction clk input d = (Inr t, d')"
  shows "t = created_transaction clk input d \<and> transactions d' = transactions d @ [t]"
  using assms unfolding createTransaction_unfold
  by (auto simp: Let_def simp del: insert_items.simps validate_items.simps
      split: list.splits option.splits if_splits prod.splits sum.splits
      dest!: insert_items_frame)

lemma created_transaction_fields:
  "subtotal (created_transaction clk input d) = calc_subtotal (items input)"
  "ppn_enabled (created_transaction clk input d) = c_ppn_enabled input"
  "regional_tax_enabled (created_transaction clk input d) = c_regional_tax_enabled input"
  "pph22_enabled (created_transaction clk input d) = c_pph22_enabled input"
  "pph23_enabled (created_transaction clk input d) = c_pph23_enabled input"
  "ppn_amount (created_transaction clk input d) =
     (if c_ppn_enabled input then calc_subtotal (items input) * (11 / 100) else 0)"
  "regional_tax_amount (created_transaction clk input d) =
     (if c_regional_tax_enabled input then calc_subtotal (items input) * (1 / 100) else 0)"
  "pph22_amount (created_transaction clk input d) =
     (if c_pph22_enabled input then calc_subtotal (items input) * (2 / 1000) else 0)"
  "pph23_amount (created_transaction clk input d) =
     (if c_pph23_enabled input then calc_subtotal (items input) * (2 / 100) else 0)"
  "status (created_transaction clk input d) = draft"
  "t_id (created_transaction clk input d) = next_transaction_id d"
  by (simp_all add: created_transaction_def Let_def)

lemma created_transaction_stamp:
  "stamp_duty_required (created_transaction clk input d) =
     (subtotal (created_transaction clk input d) + ppn_amount (created_transaction clk input d)
        + regional_tax_amount (created_transaction clk input d)
        - pph22_amount (created_transaction clk input d)
        - pph23_amount (created_transaction clk input d) \<ge> 5000000)"
  "stamp_duty_amount (created_transaction clk input d) =
     (if stamp_duty_required (created_transaction clk input d) then 10000 else 0)"
  "total_amount (created_transaction clk input d) =
     subtotal (created_transaction clk input d) + ppn_amount (created_transaction clk input d)
       + regional_tax_amount (created_transaction clk input d)
       - pph22_amount (created_transaction clk input d)
       - pph23_amount (created_transaction clk input d)
       + stamp_duty_amount (created_transaction clk input d)"
  by (simp_all add: created_transaction_def Let_def)

lemma createTransaction_returns:
  assumes "items input = it # its"
    and "validate_items d (items input) = None"
    and "\<not> list_ex (\<lambda>t. t_id t = next_transaction_id d) (transactions d)"
    and "\<not> list_ex (\<lambda>t. transaction_number t = ''TRX-'' @ toString (clock_now clk)) (transactions d)"
    and "insert_items (clock_now clk) (next_transaction_id d) (items input)
           (d\<lparr>next_transaction_id := Suc (next_transaction_id d),
              transactions := transactions d @ [created_transaction clk input d]\<rparr>) = (Inr (), d')"
  shows "createTransaction clk input d = (Inr (created_transaction clk input d), d')"
  using assms unfolding createTransaction_unfold
  by (simp add: Let_def del: insert_items.simps validate_items.simps)


lemma calc_subtotal_single: "calc_subtotal [it] = lineTotal it"
  by (simp add: calc_subtotal_def)

section \<open>Lemmas about updateTransaction\<close>

lemma updateTransaction_found:
  assumes "select_transaction d (u_id input) = t # ts"
  shows "updateTransaction clk input d =
           (Inr (update_patch clk input d t t),
            d\<lparr>transactions :=
                map (\<lambda>r. if t_id r = u_id input then update_patch clk input d t r else r)
                  (transactions d)\<rparr>)"
  using assms
  by (simp add: updateTransaction_def update_transactions_def update_patch_def Let_def
      split del: if_split cong: if_cong)

lemma updateTransaction_not_found:
  assumes "select_transaction d (u_id input) = []"
  shows "updateTransaction clk input d =
           (Inl (Error (''Transaction with id '' @ toString (u_id input) @ '' not found'')), d)"
  using assms by (simp add: updateTransaction_def)

lemma updateTransaction_Inr:
  assumes "updateTransaction clk input d = (Inr u, d')"
  obtains t ts where "select_transaction d (u_id input) = t # ts"
    and "u = update_patch clk input d t t"
    and "d' = d\<lparr>transactions :=
                map (\<lambda>r. if t_id r = u_id input then update_patch clk input d t r else r)
                  (transactions d)\<rparr>"
proof (cases "select_transaction d (u_id input)")
  case Nil
  from updateTransaction_not_found [OF this] assms show ?thesis by simp
next
  case (Cons t ts)
  from updateTransaction_found [OF this] assms that [OF Cons] show ?thesis by simp
qed

lemma select_transaction_mem:
  "select_transaction d i = t # ts \<Longrightarrow> t \<in> set (transactions d) \<and> t_id t = i"
proof -
  assume "select_transaction d i = t # ts"
  then have "t \<in> set (filter (\<lambda>t. t_id t = i) (transactions d))"
    by (simp add: select_transaction_def)
  then show ?thesis by simp
qed

lemma taxFields_invariant: "tax_invariant (taxFields input e its t)"
  by (simp add: tax_invariant_def tax_amount_ok_def taxFields_def Let_def)

lemma basicFields_invariant: "tax_invariant (basicFields clk input t) = tax_invariant t"
  by (simp add: tax_invariant_def basicFields_def)

lemma created_transaction_invariant: "tax_invariant (created_transaction clk input d)"
  by (simp add: tax_invariant_def tax_amount_ok_def created_transaction_def Let_def)


section \<open>The handlers on the example data\<close>

lemma ex_createTransaction:
  "\<exists>d'. createTransaction ex_clock (ex_create a b c e [ex_line q p z]) ex_db =
          (Inr (created_transaction ex_clock (ex_create a b c e [ex_line q p z]) ex_db), d')"
proof -
  let ?input = "ex_create a b c e [ex_line q p z]"
  have its: "items ?input = ex_line q p z # []"
    by (simp add: ex_create_def)
  have v: "validate_items ex_db (items ?input) = None"
    by (simp add: ex_create_def ex_line_def ex_db_def ex_catalog_item_def select_catalog_item_def)
  have pk: "\<not> list_ex (\<lambda>t. t_id t = next_transaction_id ex_db) (transactions ex_db)"
    by (simp add: ex_db_def)
  have un: "\<not> list_ex (\<lambda>t. transaction_number t = ''TRX-'' @ toString (clock_now ex_clock))
               (transactions ex_db)"
    by (simp add: ex_db_def)
  obtain d' where ins: "insert_items (clock_now ex_clock) (next_transaction_id ex_db) (items ?input)
           (ex_db\<lparr>next_transaction_id := Suc (next_transaction_id ex_db),
              transactions := transactions ex_db @ [created_transaction ex_clock ?input ex_db]\<rparr>)
           = (Inr (), d')"
    by (simp add: its insert_transaction_item_def Let_def ex_db_def)
  from createTransaction_returns [OF its v pk un ins] show ?thesis ..
qed

lemma ex_created_subtotal:
  "calc_subtotal (items (ex_create a b c e [ex_line q p z])) = q * p * (1 - z / 100)"
  by (simp add: ex_create_def ex_line_def calc_subtotal_single lineTotal_def)

lemma ex_select_transaction:
  "select_transaction (ex_db_with (ex_transaction st a b c) its) 1 = [ex_transaction st a b c]"
  by (simp add: select_transaction_def ex_db_with_def ex_transaction_def)

lemma only_id_id [simp]: "u_id (only_id i) = i"
  by (simp add: only_id_def)

lemma ex_select_items_joined:
  "select_items_joined (ex_db_with t [ex_item x]) 1 = [(ex_item x, ex_catalog_item)]"
  by (simp add: select_items_joined_def select_catalog_item_def ex_db_with_def ex_db_def
      ex_item_def ex_catalog_item_def)

section \<open>The patch of updateTransaction\<close>

lemma basicFields_status_only:
  "basicFields clk ((only_id i)\<lparr>u_status := Some s\<rparr>) r =
     r\<lparr>status := s, t_updated_at := clock_now clk\<rparr>"
  by (simp add: basicFields_def only_id_def)

lemma shouldRecalculate_only_id [simp]:
  "\<not> shouldRecalculate (only_id i)"
  "\<not> shouldRecalculate ((only_id i)\<lparr>u_status := st\<rparr>)"
  "shouldRecalculate ((only_id i)\<lparr>u_ppn_enabled := Some b\<rparr>)"
  by (simp_all add: shouldRecalculate_def only_id_def)

lemma update_patch_status:
  "status (update_patch clk input d e r) = set_value (u_status input) (status r)"
  by (simp add: update_patch_def taxFields_def basicFields_def Let_def)

lemma update_patch_id: "t_id (update_patch clk input d e r) = t_id r"
  by (simp add: update_patch_def taxFields_def basicFields_def Let_def)

lemma select_transaction_updated:
  "select_transaction
     (d\<lparr>transactions := map (\<lambda>r. if t_id r = i then update_patch clk input d e r else r)
                          (transactions d)\<rparr>) i =
   map (update_patch clk input d e) (select_transaction d i)"
  by (simp add: select_transaction_def filter_map o_def update_patch_id cong: filter_cong)


section \<open>The recalculation of updateTransaction\<close>

lemma foldl_add_sum_list:
  "foldl (\<lambda>s r. s + f r) a xs = (a::rat) + sum_list (map f xs)"
  by (induction xs arbitrary: a) simp_all

lemma taxFields_subtotal:
  "subtotal (taxFields input e its t) = sum_list (map (\<lambda>r. ti_line_total (fst r)) its)"
  by (simp add: taxFields_def Let_def foldl_add_sum_list)

lemma taxFields_flags:
  "ppn_enabled (taxFields input e its t) = set_value (u_ppn_enabled input) (ppn_enabled e)"
  "regional_tax_enabled (taxFields input e its t) =
     set_value (u_regional_tax_enabled input) (regional_tax_enabled e)"
  "pph22_enabled (taxFields input e its t) = set_value (u_pph22_enabled input) (pph22_enabled e)"
  "pph23_enabled (taxFields input e its t) = set_value (u_pph23_enabled input) (pph23_enabled e)"
  by (simp_all add: taxFields_def Let_def)

lemma taxFields_amounts:
  "ppn_amount (taxFields input e its t) =
     (if ppn_enabled (taxFields input e its t) then subtotal (taxFields input e its t) * (11 / 100)
      else 0)"
  "regional_tax_amount (taxFields input e its t) =
     (if regional_tax_enabled (taxFields input e its t)
      then subtotal (taxFields input e its t) * (1 / 10) else 0)"
  "pph22_amount (taxFields input e its t) =
     (if pph22_enabled (taxFields input e its t)
      then subtotal (taxFields input e its t) * (22 / 1000) else 0)"
  "pph23_amount (taxFields input e its t) =
     (if pph23_enabled (taxFields input e its t)
      then subtotal (taxFields input e its t) * (2 / 100) else 0)"
  by (simp_all add: taxFields_def Let_def)

lemma taxFields_stamp:
  "stamp_duty_required (taxFields input e its t) = (subtotal (taxFields input e its t) \<ge> 5000000)"
  "stamp_duty_amount (taxFields input e its t) =
     (if stamp_duty_required (taxFields input e its t) then 10000 else 0)"
  by (simp_all add: taxFields_def Let_def)

lemma taxFields_total:
  "total_amount (taxFields input e its t) =
     subtotal (taxFields input e its t) + ppn_amount (taxFields input e its t)
       + regional_tax_amount (taxFields input e its t) - pph22_amount (taxFields input e its t)
       - pph23_amount (taxFields input e its t) + stamp_duty_amount (taxFields input e its t)"
  by (simp add: taxFields_def Let_def)

text \<open>
  The two handlers decide the stamp duty differently: createTransaction on the total
  before stamp duty, updateTransaction on the subtotal.
\<close>

lemma createTransaction_stamp_duty:
  assumes "createTransaction clk input d = (Inr t, d')"
  shows "spec_stamp_duty t"
  using createTransaction_Inr [OF assms]
  by (simp add: spec_stamp_duty_def pre_stamp_duty_total_def created_transaction_stamp)

lemma updateTransaction_stamp_duty:
  assumes "updateTransaction clk input d = (Inr u, d')" and "shouldRecalculate input"
  shows "stamp_duty_required u = (subtotal u \<ge> 5000000) \<and>
         stamp_duty_amount u = (if stamp_duty_required u then 10000 else 0)"
proof -
  from assms(1) obtain e es where "u = update_patch clk input d e e"
    by (auto elim: updateTransaction_Inr)
  with assms(2) show ?thesis
    by (simp add: update_patch_def taxFields_stamp)
qed

section \<open>The database createTransaction leaves on the example data\<close>

lemma ex_createTransaction_db:
  "createTransaction ex_clock (ex_create a b c e [ex_line q p z]) ex_db =
     (Inr (created_transaction ex_clock (ex_create a b c e [ex_line q p z]) ex_db),
      ex_db\<lparr>next_transaction_id := 2,
            transactions := [created_transaction ex_clock (ex_create a b c e [ex_line q p z]) ex_db],
            next_transaction_item_id := 2,
            transaction_items :=
              [\<lparr>ti_id = 1, ti_transaction_id = 1, ti_catalog_item_id = 1, ti_quantity = q,
                ti_unit_price = p, ti_discount_percentage = z,
                ti_line_total = q * p * (1 - z / 100),
                ti_created_at = clock_now ex_clock\<rparr>]\<rparr>)"
proof -
  let ?input = "ex_create a b c e [ex_line q p z]"
  have its: "items ?input = ex_line q p z # []"
    by (simp add: ex_create_def)
  have v: "validate_items ex_db (items ?input) = None"
    by (simp add: ex_create_def ex_line_def ex_db_def ex_catalog_item_def select_catalog_item_def)
  have pk: "\<not> list_ex (\<lambda>t. t_id t = next_transaction_id ex_db) (transactions ex_db)"
    by (simp add: ex_db_def)
  have un: "\<not> list_ex (\<lambda>t. transaction_number t = ''TRX-'' @ toString (clock_now ex_clock))
               (transactions ex_db)"
    by (simp add: ex_db_def)
  have ins: "insert_items (clock_now ex_clock) (next_transaction_id ex_db) (items ?input)
           (ex_db\<lparr>next_transaction_id := Suc (next_transaction_id ex_db),
              transactions := transactions ex_db @ [created_transaction ex_clock ?input ex_db]\<rparr>)
           = (Inr (),
              ex_db\<lparr>next_transaction_id := 2,
                transactions := [created_transaction ex_clock ?input ex_db],
                next_transaction_item_id := 2,
                transaction_items :=
                  [\<lparr>ti_id = 1, ti_transaction_id = 1, ti_catalog_item_id = 1, ti_quantity = q,
                    ti_unit_price = p, ti_discount_percentage = z,
                    ti_line_total = q * p * (1 - z / 100),
                    ti_created_at = clock_now ex_clock\<rparr>]\<rparr>)"
    unfolding its
    by (simp add: insert_transaction_item_def Let_def ex_db_def ex_line_def lineTotal_def)
  from createTransaction_returns [OF its v pk un ins] show ?thesis .
qed

lemma ex_created_select:
  "select_transaction (snd (createTransaction ex_clock (ex_create a b c e [ex_line q p z]) ex_db)) 1
     = [created_transaction ex_clock (ex_create a b c e [ex_line q p z]) ex_db]"
  unfolding ex_createTransaction_db
  by (simp add: select_transaction_def created_transaction_fields ex_db_def)

lemma ex_created_items:
  "select_items_joined
     (snd (createTransaction ex_clock (ex_create a b c e [ex_line q p z]) ex_db)) 1
     = [(\<lparr>ti_id = 1, ti_transaction_id = 1, ti_catalog_item_id = 1, ti_quantity = q,
          ti_unit_price = p, ti_discount_percentage = z,
          ti_line_total = q * p * (1 - z / 100),
          ti_created_at = clock_now ex_clock\<rparr>, ex_catalog_item)]"
  unfolding ex_createTransaction_db
  by (simp add: select_items_joined_def select_catalog_item_def ex_db_def ex_catalog_item_def)

lemma ex_create_flags:
  "c_ppn_enabled (ex_create a b c e its) = a"
  "c_regional_tax_enabled (ex_create a b c e its) = b"
  "c_pph22_enabled (ex_create a b c e its) = c"
  "c_pph23_enabled (ex_create a b c e its) = e"
  by (simp_all add: ex_create_def)


section \<open>Lemmas about generateDocument\<close>

lemma prefix_lookup:
  "(case map_of prefixes (document_type_name ty) of Some p \<Rightarrow> p | None \<Rightarrow> ''DOC'')
     = spec_type_prefix ty"
  by (cases ty) (simp_all add: prefixes_def)

lemma spec_type_prefix_inj: "spec_type_prefix a = spec_type_prefix b \<Longrightarrow> a = b"
  by (cases a; cases b) simp_all

lemma generateDocumentNumber_spec:
  "generateDocumentNumber clk (document_type_name ty) i =
     spec_type_prefix ty @ ''-'' @ toString (clock_year clk) @ ''-''
       @ padStart 4 (CHR ''0'') (toString i)"
  using prefix_lookup [of ty] by (simp add: generateDocumentNumber_def Let_def)

lemma length_padStart: "length (padStart n c s) = max n (length s)"
  by (simp add: padStart_def)

lemma no_row_filter:
  "\<not> list_ex (\<lambda>r. d_id r = i) xs \<Longrightarrow> filter (\<lambda>r. d_id r = i) xs = []"
  by (induction xs) simp_all

lemma no_row_map:
  "\<not> list_ex (\<lambda>r. d_id r = i) xs \<Longrightarrow> map (\<lambda>r. if d_id r = i then f r else r) xs = xs"
  by (induction xs) simp_all

lemma placeholder_document_id [simp]: "d_id (placeholder_document clk input d) = next_document_id d"
  by (simp add: placeholder_document_def)

lemma insert_document_placeholder:
  assumes "\<not> list_ex (\<lambda>r. d_id r = next_document_id d) (documents d)"
  shows "insert_document (clock_now clk)
           \<lparr>d_id = 0, d_transaction_id = g_transaction_id input,
            d_document_type = g_document_type input,
            document_number = ''TEMP'',
            document_date = (case g_document_date input of None \<Rightarrow> clock_now clk | Some dt \<Rightarrow> dt),
            recipient_name = or_null (g_recipient_name input),
            custom_notes = or_null (g_custom_notes input),
            html_content = [],
            d_created_at = 0\<rparr> d =
         (Inr (placeholder_document clk input d),
          d\<lparr>next_document_id := Suc (next_document_id d),
            documents := documents d @ [placeholder_document clk input d]\<rparr>)"
  using assms by (simp add: insert_document_def placeholder_document_def Let_def)

lemma generateDocument_loaded:
  assumes "select_transaction d (g_transaction_id input) = t # ts"
    and "select_items_joined d (g_transaction_id input) = ir # irs"
    and "store_profiles d = sp # sps"
    and "\<not> list_ex (\<lambda>r. d_id r = next_document_id d) (documents d)"
  shows "generateDocument clk gen rejected input d =
           (if rejected
            then (Inl (DbError ''update documents''),
                  d\<lparr>next_document_id := Suc (next_document_id d),
                    documents := documents d @ [placeholder_document clk input d]\<rparr>)
            else (Inr (final_document clk gen input d t (ir # irs) sp),
                  d\<lparr>next_document_id := Suc (next_document_id d),
                    documents := documents d @ [final_document clk gen input d t (ir # irs) sp]\<rparr>))"
proof -
  have date: "(placeholder_document clk input d)
      \<lparr>document_number := n,
        document_date := (case g_document_date input of None \<Rightarrow> clock_now clk | Some dt \<Rightarrow> dt)\<rparr>
      = (placeholder_document clk input d)\<lparr>document_number := n\<rparr>" for n
    by (simp add: placeholder_document_def)
  show ?thesis
  proof (cases rejected)
    case True
    then show ?thesis
      using assms(1-3)
      by (simp add: generateDocument_def Let_def insert_document_placeholder [OF assms(4)]
          update_document_def)
  next
    case False
    then show ?thesis
      using assms(1-3)
      by (simp add: generateDocument_def Let_def insert_document_placeholder [OF assms(4)]
          update_document_def no_row_filter [OF assms(4)] no_row_map [OF assms(4)]
          final_document_def date)
  qed
qed

lemma generateDocument_Inr:
  assumes "generateDocument clk gen rejected input d = (Inr doc, d')"
  obtains t ts ir irs sp sps where
    "select_transaction d (g_transaction_id input) = t # ts"
    "select_items_joined d (g_transaction_id input) = ir # irs"
    "store_profiles d = sp # sps"
    "\<not> list_ex (\<lambda>r. d_id r = next_document_id d) (documents d)"
    "\<not> rejected"
    "doc = final_document clk gen input d t (ir # irs) sp"
    "d' = d\<lparr>next_document_id := Suc (next_document_id d), documents := documents d @ [doc]\<rparr>"
proof (cases "select_transaction d (g_transaction_id input)")
  case Nil
  with assms show ?thesis by (simp add: generateDocument_def)
next
  case t: (Cons t ts)
  show ?thesis
  proof (cases "select_items_joined d (g_transaction_id input)")
    case Nil
    with assms t show ?thesis by (simp add: generateDocument_def)
  next
    case ir: (Cons ir irs)
    show ?thesis
    proof (cases "store_profiles d")
      case Nil
      with assms t ir show ?thesis by (simp add: generateDocument_def)
    next
      case sp: (Cons sp sps)
      show ?thesis
      proof (cases "list_ex (\<lambda>r. d_id r = next_document_id d) (documents d)")
        case True
        with assms t ir sp show ?thesis
          by (simp add: generateDocument_def insert_document_def Let_def)
      next
        case False
        from generateDocument_loaded [OF t ir sp False, of clk gen rejected] assms that [OF t ir sp False]
        show ?thesis by (cases rejected) auto
      qed
    qed
  qed
qed


section \<open>The claims\<close>

text \<open>
  C1. createTransaction, given exactly one line item with quantity 2, unit price 1000 and
  discount 0, with PPN enabled and the three other taxes disabled, returns a transaction
  with subtotal 2000, PPN amount 220 and total amount 2220. It does return one when the
  catalog entry of the line exists and the keys of the two inserts are free.
\<close>

theorem createTransaction_basic_ppn:
  assumes "items input = [it]"
    and "quantity it = 2" and "unit_price it = 1000" and "discount_percentage it = 0"
    and "c_ppn_enabled input" and "\<not> c_regional_tax_enabled input"
    and "\<not> c_pph22_enabled input" and "\<not> c_pph23_enabled input"
  shows "(\<forall>t d'. createTransaction clk input d = (Inr t, d') \<longrightarrow>
            subtotal t = 2000 \<and> ppn_amount t = 220 \<and> total_amount t = 2220) \<and>
         (select_catalog_item d (catalog_item_id it) \<noteq> [] \<and>
          \<not> list_ex (\<lambda>t. t_id t = next_transaction_id d) (transactions d) \<and>
          \<not> list_ex (\<lambda>t. transaction_number t = ''TRX-'' @ toString (clock_now clk))
               (transactions d) \<and>
          \<not> list_ex (\<lambda>r. ti_id r = next_transaction_item_id d) (transaction_items d) \<longrightarrow>
          (\<exists>t d'. createTransaction clk input d = (Inr t, d')))"
proof (intro conjI allI impI)
  fix t d'
  assume "createTransaction clk input d = (Inr t, d')"
  then have t: "t = created_transaction clk input d"
    by (simp add: createTransaction_Inr)
  have sub: "calc_subtotal (items input) = 2000"
    using assms by (simp add: calc_subtotal_single lineTotal_def)
  show "subtotal t = 2000" "ppn_amount t = 220" "total_amount t = 2220"
    using assms sub unfolding t
    by (simp_all add: created_transaction_stamp created_transaction_fields)
next
  assume pre: "select_catalog_item d (catalog_item_id it) \<noteq> [] \<and>
          \<not> list_ex (\<lambda>t. t_id t = next_transaction_id d) (transactions d) \<and>
          \<not> list_ex (\<lambda>t. transaction_number t = ''TRX-'' @ toString (clock_now clk))
               (transactions d) \<and>
          \<not> list_ex (\<lambda>r. ti_id r = next_transaction_item_id d) (transaction_items d)"
  have v: "validate_items d (items input) = None"
    using assms(1) pre by simp
  obtain d' where ins: "insert_items (clock_now clk) (next_transaction_id d) (items input)
           (d\<lparr>next_transaction_id := Suc (next_transaction_id d),
              transactions := transactions d @ [created_transaction clk input d]\<rparr>) = (Inr (), d')"
    using assms(1) pre by (simp add: insert_transaction_item_def Let_def)
  from createTransaction_returns [OF assms(1) v _ _ ins] pre
  show "\<exists>t d'. createTransaction clk input d = (Inr t, d')" by blast
qed

theorem createTransaction_basic_ppn_witness:
  "\<exists>t d'. createTransaction ex_clock (ex_create True False False False [ex_line 2 1000 0]) ex_db
             = (Inr t, d') \<and>
          subtotal t = 2000 \<and> ppn_amount t = 220 \<and> total_amount t = 2220"
proof -
  have "items (ex_create True False False False [ex_line 2 1000 0]) = [ex_line 2 1000 0]"
    by (simp add: ex_create_def)
  from createTransaction_basic_ppn [OF this, of ex_clock ex_db]
  show ?thesis
    by (simp add: ex_create_def ex_line_def ex_db_def ex_catalog_item_def select_catalog_item_def)
      blast
qed





text \<open>
  C3 fails on updateTransaction. A transaction created with one line of 4,600,000 and no
  tax, then updated with \<^verbatim>\<open>ppn_enabled: true\<close>, has a total before stamp duty of
  4,600,000 + 506,000 = 5,106,000, at least 5,000,000, yet the update leaves
  stamp_duty_required false and stamp_duty_amount 0, because it compares the subtotal.
  createTransaction with the same line and PPN enabled does require the stamp duty.
\<close>

theorem updateTransaction_stamp_duty_failing_input:
  "\<not> isl (fst (updateTransaction ex_clock ((only_id 1)\<lparr>u_ppn_enabled := Some True\<rparr>)
      (snd (createTransaction ex_clock (ex_create False False False False [ex_line 1 4600000 0]) ex_db)))) \<and>
   pre_stamp_duty_total
     (projr (fst (updateTransaction ex_clock ((only_id 1)\<lparr>u_ppn_enabled := Some True\<rparr>)
        (snd (createTransaction ex_clock (ex_create False False False False [ex_line 1 4600000 0]) ex_db)))))
     = 5106000 \<and>
   \<not> stamp_duty_required
     (projr (fst (updateTransaction ex_clock ((only_id 1)\<lparr>u_ppn_enabled := Some True\<rparr>)
        (snd (createTransaction ex_clock (ex_create False False False False [ex_line 1 4600000 0]) ex_db))))) \<and>
   stamp_duty_amount
     (projr (fst (updateTransaction ex_clock ((only_id 1)\<lparr>u_ppn_enabled := Some True\<rparr>)
        (snd (createTransaction ex_clock (ex_create False False False False [ex_line 1 4600000 0]) ex_db)))))
     = 0 \<and>
   \<not> spec_stamp_duty
     (projr (fst (updateTransaction ex_clock ((only_id 1)\<lparr>u_ppn_enabled := Some True\<rparr>)
        (snd (createTransaction ex_clock (ex_create False False False False [ex_line 1 4600000 0]) ex_db))))) \<and>
   stamp_duty_required
     (projr (fst (createTransaction ex_clock (ex_create True False False False [ex_line 1 4600000 0]) ex_db)))"
proof -
  let ?d = "snd (createTransaction ex_clock (ex_create False False False False [ex_line 1 4600000 0]) ex_db)"
  let ?uin = "(only_id 1)\<lparr>u_ppn_enabled := Some True\<rparr>"
  have sel: "select_transaction ?d (u_id ?uin) =
               created_transaction ex_clock (ex_create False False False False [ex_line 1 4600000 0]) ex_db # []"
    using ex_created_select [of False False False False 1 4600000 0] by simp
  have flags: "u_regional_tax_enabled ((only_id i)\<lparr>u_ppn_enabled := b\<rparr>) = None"
    "u_pph22_enabled ((only_id i)\<lparr>u_ppn_enabled := b\<rparr>) = None"
    "u_pph23_enabled ((only_id i)\<lparr>u_ppn_enabled := b\<rparr>) = None"
    "u_ppn_enabled ((only_id i)\<lparr>u_ppn_enabled := b\<rparr>) = b" for i b
    by (simp_all add: only_id_def)
  have its: "select_items_joined ?d (u_id ?uin) =
      [(\<lparr>ti_id = 1, ti_transaction_id = 1, ti_catalog_item_id = 1, ti_quantity = 1,
          ti_unit_price = 4600000, ti_discount_percentage = 0,
          ti_line_total = 1 * 4600000 * (1 - 0 / 100),
          ti_created_at = clock_now ex_clock\<rparr>, ex_catalog_item)]"
    using ex_created_items [of False False False False 1 4600000 0] by simp
  have upd: "pre_stamp_duty_total (projr (fst (updateTransaction ex_clock ?uin ?d))) = 5106000 \<and>
             \<not> stamp_duty_required (projr (fst (updateTransaction ex_clock ?uin ?d))) \<and>
             stamp_duty_amount (projr (fst (updateTransaction ex_clock ?uin ?d))) = 0 \<and>
             \<not> isl (fst (updateTransaction ex_clock ?uin ?d))"
    unfolding updateTransaction_found [OF sel] update_patch_def its
    by (simp add: pre_stamp_duty_total_def taxFields_stamp taxFields_amounts
        taxFields_flags taxFields_subtotal flags created_transaction_fields ex_create_flags)
  then have "\<not> spec_stamp_duty (projr (fst (updateTransaction ex_clock ?uin ?d)))"
    by (simp add: spec_stamp_duty_def)
  moreover have "stamp_duty_required
     (projr (fst (createTransaction ex_clock (ex_create True False False False [ex_line 1 4600000 0]) ex_db)))"
    by (simp add: ex_createTransaction_db created_transaction_stamp created_transaction_fields
        ex_created_subtotal ex_create_flags)
  ultimately show ?thesis using upd by simp
qed

text \<open>
  C4, as the code has it. deleteTransaction throws \<^verbatim>\<open>Transaction not found\<close> when no
  transaction has the id. When the transaction exists and its status is not draft it
  throws \<^verbatim>\<open>Only draft transactions can be deleted\<close>, a fixed message that does not name
  the current status, and leaves the database as it was. When the status is draft it
  returns true and removes the transaction rows with the id and, by cascade, every item
  row and every document row that references it; the other rows stay.
\<close>

theorem deleteTransaction_cases:
  "(select_transaction d i = [] \<longrightarrow>
      deleteTransaction i d = (Inl (Error ''Transaction not found''), d)) \<and>
   (select_transaction d i = t # ts \<and> status t \<noteq> draft \<longrightarrow>
      deleteTransaction i d = (Inl (Error ''Only draft transactions can be deleted''), d)) \<and>
   (select_transaction d i = t # ts \<and> status t = draft \<longrightarrow>
      deleteTransaction i d =
        (Inr True,
         d\<lparr>transactions := filter (\<lambda>r. t_id r \<noteq> i) (transactions d),
           transaction_items := filter (\<lambda>r. ti_transaction_id r \<noteq> i) (transaction_items d),
           documents := filter (\<lambda>r. d_transaction_id r \<noteq> i) (documents d)\<rparr>) \<and>
      select_transaction (snd (deleteTransaction i d)) i = [] \<and>
      filter (\<lambda>r. ti_transaction_id r = i) (transaction_items (snd (deleteTransaction i d))) = [])"
proof (intro conjI impI)
  assume "select_transaction d i = []"
  then show "deleteTransaction i d = (Inl (Error ''Transaction not found''), d)"
    by (simp add: deleteTransaction_def)
next
  assume "select_transaction d i = t # ts \<and> status t \<noteq> draft"
  then show "deleteTransaction i d = (Inl (Error ''Only draft transactions can be deleted''), d)"
    by (simp add: deleteTransaction_def)
next
  assume a: "select_transaction d i = t # ts \<and> status t = draft"
  then show del: "deleteTransaction i d =
        (Inr True,
         d\<lparr>transactions := filter (\<lambda>r. t_id r \<noteq> i) (transactions d),
           transaction_items := filter (\<lambda>r. ti_transaction_id r \<noteq> i) (transaction_items d),
           documents := filter (\<lambda>r. d_transaction_id r \<noteq> i) (documents d)\<rparr>)"
    by (simp add: deleteTransaction_def delete_transactions_def)
  show "select_transaction (snd (deleteTransaction i d)) i = []"
    unfolding del by (simp add: select_transaction_def)
  show "filter (\<lambda>r. ti_transaction_id r = i) (transaction_items (snd (deleteTransaction i d))) = []"
    unfolding del by simp
qed

theorem deleteTransaction_cases_witness:
  "deleteTransaction 1 ex_db = (Inl (Error ''Transaction not found''), ex_db) \<and>
   deleteTransaction 1 (ex_db_with (ex_transaction paid 1000 110 1110) [ex_item 1000]) =
     (Inl (Error ''Only draft transactions can be deleted''),
      ex_db_with (ex_transaction paid 1000 110 1110) [ex_item 1000]) \<and>
   fst (deleteTransaction 1 (ex_db_with (ex_transaction draft 1000 110 1110) [ex_item 1000]))
     = Inr True \<and>
   transactions (snd (deleteTransaction 1
     (ex_db_with (ex_transaction draft 1000 110 1110) [ex_item 1000]))) = [] \<and>
   transaction_items (snd (deleteTransaction 1
     (ex_db_with (ex_transaction draft 1000 110 1110) [ex_item 1000]))) = []"
proof -
  have a: "select_transaction ex_db 1 = []"
    by (simp add: select_transaction_def ex_db_def)
  have st: "status (ex_transaction paid 1000 110 1110) \<noteq> draft"
    "status (ex_transaction draft 1000 110 1110) = draft"
    by (simp_all add: ex_transaction_def)
  have rows: "transactions (ex_db_with t its) = [t]" "transaction_items (ex_db_with t its) = its"
    for t its
    by (simp_all add: ex_db_with_def)
  have ids: "t_id (ex_transaction draft 1000 110 1110) = 1" "ti_transaction_id (ex_item 1000) = 1"
    by (simp_all add: ex_transaction_def ex_item_def)
  from deleteTransaction_cases [of ex_db 1]
    deleteTransaction_cases [of "ex_db_with (ex_transaction paid 1000 110 1110) [ex_item 1000]" 1
      "ex_transaction paid 1000 110 1110" "[]"]
    deleteTransaction_cases [of "ex_db_with (ex_transaction draft 1000 110 1110) [ex_item 1000]" 1
      "ex_transaction draft 1000 110 1110" "[]"]
    a st ex_select_transaction [of paid 1000 110 1110 "[ex_item 1000]"]
    ex_select_transaction [of draft 1000 110 1110 "[ex_item 1000]"]
  show ?thesis
    by (simp add: rows ids)
qed

text \<open>
  C4 as stated fails in one point: the error does not identify the current state. A
  confirmed and a paid transaction are refused with the same error value.
\<close>

theorem deleteTransaction_error_counterexample:
  "fst (deleteTransaction 1 (ex_db_with (ex_transaction confirmed 1000 110 1110) [ex_item 1000]))
     = Inl (Error ''Only draft transactions can be deleted'') \<and>
   fst (deleteTransaction 1 (ex_db_with (ex_transaction paid 1000 110 1110) [ex_item 1000]))
     = Inl (Error ''Only draft transactions can be deleted'') \<and>
   confirmed \<noteq> paid"
proof -
  have st: "status (ex_transaction st a b c) = st" for st a b c
    by (simp add: ex_transaction_def)
  show ?thesis
    using ex_select_transaction [of confirmed 1000 110 1110 "[ex_item 1000]"]
      ex_select_transaction [of paid 1000 110 1110 "[ex_item 1000]"]
    by (simp add: deleteTransaction_def st)
qed




text \<open>
  C6. The document that generateDocument returns carries the number
  PREFIX-year-paddedId: the prefix is the one the specification's table gives for the
  document's type (the table is one-to-one), the year is the clock's current year, and the
  id, in decimal and padded with zeros on the left to at least four characters, is the id
  that the insert allocated to the row; the returned document is the only row of the
  resulting table with that id.
\<close>

theorem generateDocument_number:
  assumes "generateDocument clk gen rejected input d = (Inr doc, d')"
  shows "document_number doc =
           spec_type_prefix (d_document_type doc) @ ''-'' @ toString (clock_year clk) @ ''-''
             @ padStart 4 (CHR ''0'') (toString (d_id doc)) \<and>
         d_document_type doc = g_document_type input \<and>
         d_id doc = next_document_id d \<and>
         filter (\<lambda>r. d_id r = d_id doc) (documents d') = [doc] \<and>
         4 \<le> length (padStart 4 (CHR ''0'') (toString (d_id doc))) \<and>
         inj spec_type_prefix"
proof -
  from assms obtain t ts ir irs sp sps where
    fresh: "\<not> list_ex (\<lambda>r. d_id r = next_document_id d) (documents d)"
    and doc: "doc = final_document clk gen input d t (ir # irs) sp"
    and d': "d' = d\<lparr>next_document_id := Suc (next_document_id d), documents := documents d @ [doc]\<rparr>"
    by (auto elim: generateDocument_Inr)
  have ty: "d_document_type doc = g_document_type input"
    and id: "d_id doc = next_document_id d"
    by (simp_all add: doc final_document_def placeholder_document_def Let_def)
  have "document_number doc =
          generateDocumentNumber clk (document_type_name (g_document_type input)) (next_document_id d)"
    by (simp add: doc final_document_def Let_def)
  then have num: "document_number doc =
           spec_type_prefix (d_document_type doc) @ ''-'' @ toString (clock_year clk) @ ''-''
             @ padStart 4 (CHR ''0'') (toString (d_id doc))"
    by (simp add: generateDocumentNumber_spec ty id)
  have only: "filter (\<lambda>r. d_id r = d_id doc) (documents d') = [doc]"
    using no_row_filter [OF fresh] by (simp add: d' id)
  have "inj spec_type_prefix"
    by (rule injI) (rule spec_type_prefix_inj)
  with num ty id only show ?thesis
    by (simp add: length_padStart)
qed

theorem generateDocument_number_witness:
  "\<exists>doc d'. generateDocument ex_clock ex_html False (ex_generate invoice)
               (ex_db_with (ex_transaction draft 1000 110 1110) [ex_item 1000]) = (Inr doc, d') \<and>
            document_number doc = ''INV-2024-0001'' \<and> d_id doc = 1 \<and>
            filter (\<lambda>r. d_id r = 1) (documents d') = [doc]"
proof -
  let ?d = "ex_db_with (ex_transaction draft 1000 110 1110) [ex_item 1000]"
  have t: "select_transaction ?d (g_transaction_id (ex_generate invoice))
             = ex_transaction draft 1000 110 1110 # []"
    using ex_select_transaction [of draft 1000 110 1110] by (simp add: ex_generate_def)
  have ir: "select_items_joined ?d (g_transaction_id (ex_generate invoice))
             = (ex_item 1000, ex_catalog_item) # []"
    using ex_select_items_joined [of _ 1000] by (simp add: ex_generate_def)
  have sp: "store_profiles ?d = ex_store # []"
    by (simp add: ex_db_with_def ex_db_def)
  have fresh: "\<not> list_ex (\<lambda>r. d_id r = next_document_id ?d) (documents ?d)"
    by (simp add: ex_db_with_def ex_db_def)
  from generateDocument_loaded [OF t ir sp fresh, of ex_clock ex_html False]
  obtain doc d' where
    g: "generateDocument ex_clock ex_html False (ex_generate invoice) ?d = (Inr doc, d')"
    by auto
  have next1: "next_document_id ?d = 1"
    by (simp add: ex_db_with_def ex_db_def)
  have ty: "g_document_type (ex_generate invoice) = invoice"
    by (simp add: ex_generate_def)
  have one: "toString (Suc 0) = ''1''" and year: "toString (clock_year ex_clock) = ''2024''"
    by (simp_all add: toString.simps digit_def ex_clock_def)
  have pad: "padStart 4 (CHR ''0'') ''1'' = ''0001''"
    by (simp add: padStart_def eval_nat_numeral)
  from generateDocument_number [OF g] have
    "document_number doc = ''INV-2024-0001'' \<and> d_id doc = 1 \<and>
     filter (\<lambda>r. d_id r = 1) (documents d') = [doc]"
    unfolding next1 ty by (clarsimp simp: one year pad)
  with g show ?thesis by blast
qed

text \<open>
  C7. generateDocument throws \<^verbatim>\<open>Transaction with id N not found\<close> when no transaction has
  the id, \<^verbatim>\<open>No items found for transaction N\<close> when the transaction exists and has no
  item row, and \<^verbatim>\<open>Store profile not found\<close> when transaction and items exist and there
  is no store profile. In each case the database it leaves is the one it was given, so no
  document row is persisted.
\<close>

theorem generateDocument_failures:
  "(select_transaction d (g_transaction_id input) = [] \<longrightarrow>
      generateDocument clk gen rejected input d =
        (Inl (Error (''Transaction with id '' @ toString (g_transaction_id input) @ '' not found'')), d)) \<and>
   (select_transaction d (g_transaction_id input) \<noteq> [] \<and>
    filter (\<lambda>r. ti_transaction_id r = g_transaction_id input) (transaction_items d) = [] \<longrightarrow>
      generateDocument clk gen rejected input d =
        (Inl (Error (''No items found for transaction '' @ toString (g_transaction_id input))), d)) \<and>
   (select_transaction d (g_transaction_id input) \<noteq> [] \<and>
    select_items_joined d (g_transaction_id input) \<noteq> [] \<and> store_profiles d = [] \<longrightarrow>
      generateDocument clk gen rejected input d = (Inl (Error ''Store profile not found''), d))"
proof (intro conjI impI)
  assume "select_transaction d (g_transaction_id input) = []"
  then show "generateDocument clk gen rejected input d =
        (Inl (Error (''Transaction with id '' @ toString (g_transaction_id input) @ '' not found'')), d)"
    by (simp add: generateDocument_def)
next
  assume a: "select_transaction d (g_transaction_id input) \<noteq> [] \<and>
    filter (\<lambda>r. ti_transaction_id r = g_transaction_id input) (transaction_items d) = []"
  then obtain t ts where t: "select_transaction d (g_transaction_id input) = t # ts"
    by (cases "select_transaction d (g_transaction_id input)") simp_all
  from a have "select_items_joined d (g_transaction_id input) = []"
    by (simp add: select_items_joined_def)
  with t show "generateDocument clk gen rejected input d =
        (Inl (Error (''No items found for transaction '' @ toString (g_transaction_id input))), d)"
    by (simp add: generateDocument_def)
next
  assume a: "select_transaction d (g_transaction_id input) \<noteq> [] \<and>
    select_items_joined d (g_transaction_id input) \<noteq> [] \<and> store_profiles d = []"
  then obtain t ts where t: "select_transaction d (g_transaction_id input) = t # ts"
    by (cases "select_transaction d (g_transaction_id input)") simp_all
  from a obtain ir irs where ir: "select_items_joined d (g_transaction_id input) = ir # irs"
    by (cases "select_items_joined d (g_transaction_id input)") simp_all
  from a t ir show "generateDocument clk gen rejected input d =
        (Inl (Error ''Store profile not found''), d)"
    by (simp add: generateDocument_def)
qed

theorem generateDocument_failures_witness:
  "generateDocument ex_clock ex_html False (ex_generate invoice) ex_db =
     (Inl (Error ''Transaction with id 1 not found''), ex_db) \<and>
   generateDocument ex_clock ex_html False (ex_generate invoice)
     (ex_db_with (ex_transaction draft 1000 110 1110) []) =
     (Inl (Error ''No items found for transaction 1''),
      ex_db_with (ex_transaction draft 1000 110 1110) []) \<and>
   generateDocument ex_clock ex_html False (ex_generate invoice)
     ((ex_db_with (ex_transaction draft 1000 110 1110) [ex_item 1000])\<lparr>store_profiles := []\<rparr>) =
     (Inl (Error ''Store profile not found''),
      (ex_db_with (ex_transaction draft 1000 110 1110) [ex_item 1000])\<lparr>store_profiles := []\<rparr>)"
proof -
  have gid: "g_transaction_id (ex_generate invoice) = 1"
    by (simp add: ex_generate_def)
  have one: "toString 1 = ''1''"
    by (simp add: toString.simps digit_def)
  have a: "select_transaction ex_db 1 = []"
    by (simp add: select_transaction_def ex_db_def)
  have b: "select_transaction (ex_db_with (ex_transaction draft 1000 110 1110) []) 1 \<noteq> []"
    "filter (\<lambda>r. ti_transaction_id r = 1)
       (transaction_items (ex_db_with (ex_transaction draft 1000 110 1110) [])) = []"
    using ex_select_transaction [of draft 1000 110 1110 "[]"] by (simp_all add: ex_db_with_def)
  let ?d = "(ex_db_with (ex_transaction draft 1000 110 1110) [ex_item 1000])\<lparr>store_profiles := []\<rparr>"
  have c: "select_transaction ?d 1 \<noteq> []" "select_items_joined ?d 1 \<noteq> []" "store_profiles ?d = []"
    by (simp_all add: select_transaction_def select_items_joined_def select_catalog_item_def
        ex_db_with_def ex_db_def ex_transaction_def ex_item_def ex_catalog_item_def)
  from generateDocument_failures [of ex_db "ex_generate invoice" ex_clock ex_html False]
    generateDocument_failures [of "ex_db_with (ex_transaction draft 1000 110 1110) []"
      "ex_generate invoice" ex_clock ex_html False]
    generateDocument_failures [of ?d "ex_generate invoice" ex_clock ex_html False]
    a b c
  show ?thesis unfolding gid one by simp
qed

text \<open>
  C8, as the code has it. generateDocument issues the insert of the placeholder row and
  the update of its number and content as two separate statements, with no transaction
  around them. Once the transaction, its items and the store profile are loaded and the
  insert has succeeded: if the update is rejected, the call fails and the placeholder row
  (document number \<^verbatim>\<open>TEMP\<close>, empty content) stays in the documents table; if the update
  succeeds, the table has gained exactly one row, the returned document with its final
  number and content.
\<close>

theorem generateDocument_two_statements:
  assumes "select_transaction d (g_transaction_id input) = t # ts"
    and "select_items_joined d (g_transaction_id input) = ir # irs"
    and "store_profiles d = sp # sps"
    and "\<not> list_ex (\<lambda>r. d_id r = next_document_id d) (documents d)"
  shows "generateDocument clk gen True input d =
           (Inl (DbError ''update documents''),
            d\<lparr>next_document_id := Suc (next_document_id d),
              documents := documents d @ [placeholder_document clk input d]\<rparr>) \<and>
         document_number (placeholder_document clk input d) = ''TEMP'' \<and>
         html_content (placeholder_document clk input d) = [] \<and>
         generateDocument clk gen False input d =
           (Inr (final_document clk gen input d t (ir # irs) sp),
            d\<lparr>next_document_id := Suc (next_document_id d),
              documents := documents d @ [final_document clk gen input d t (ir # irs) sp]\<rparr>) \<and>
         document_number (final_document clk gen input d t (ir # irs) sp) =
           generateDocumentNumber clk (document_type_name (g_document_type input))
             (next_document_id d)"
  using generateDocument_loaded [OF assms, of clk gen True]
    generateDocument_loaded [OF assms, of clk gen False]
  by (simp add: placeholder_document_def final_document_def Let_def)

theorem generateDocument_two_statements_witness:
  "map document_number
     (documents (snd (generateDocument ex_clock ex_html True (ex_generate invoice)
        (ex_db_with (ex_transaction draft 1000 110 1110) [ex_item 1000])))) = [''TEMP''] \<and>
   map document_number
     (documents (snd (generateDocument ex_clock ex_html False (ex_generate invoice)
        (ex_db_with (ex_transaction draft 1000 110 1110) [ex_item 1000])))) = [''INV-2024-0001'']"
proof -
  let ?d = "ex_db_with (ex_transaction draft 1000 110 1110) [ex_item 1000]"
  have t: "select_transaction ?d (g_transaction_id (ex_generate invoice))
             = ex_transaction draft 1000 110 1110 # []"
    using ex_select_transaction [of draft 1000 110 1110] by (simp add: ex_generate_def)
  have ir: "select_items_joined ?d (g_transaction_id (ex_generate invoice))
             = (ex_item 1000, ex_catalog_item) # []"
    using ex_select_items_joined [of _ 1000] by (simp add: ex_generate_def)
  have sp: "store_profiles ?d = ex_store # []"
    by (simp add: ex_db_with_def ex_db_def)
  have fresh: "\<not> list_ex (\<lambda>r. d_id r = next_document_id ?d) (documents ?d)"
    by (simp add: ex_db_with_def ex_db_def)
  have docs: "documents ?d = []" and next1: "next_document_id ?d = Suc 0"
    by (simp_all add: ex_db_with_def ex_db_def)
  have one: "toString (Suc 0) = ''1''" and year: "toString (clock_year ex_clock) = ''2024''"
    by (simp_all add: toString.simps digit_def ex_clock_def)
  have pad: "padStart 4 (CHR ''0'') ''1'' = ''0001''"
    by (simp add: padStart_def eval_nat_numeral)
  have ty: "g_document_type (ex_generate invoice) = invoice"
    by (simp add: ex_generate_def)
  have num: "generateDocumentNumber ex_clock (document_type_name (g_document_type (ex_generate invoice)))
               (Suc 0) = ''INV-2024-0001''"
    unfolding ty generateDocumentNumber_spec by (simp add: one year pad)
  from generateDocument_two_statements [OF t ir sp fresh, of ex_clock ex_html]
  show ?thesis
    by (simp add: docs next1 num)
qed

text \<open>
  C8 as stated fails: there is no transaction boundary. When the update statement is
  rejected after the insert, the placeholder row with the number \<^verbatim>\<open>TEMP\<close> is the one
  row of the documents table.
\<close>

theorem generateDocument_atomic_counterexample:
  "fst (generateDocument ex_clock ex_html True (ex_generate invoice)
          (ex_db_with (ex_transaction draft 1000 110 1110) [ex_item 1000]))
     = Inl (DbError ''update documents'') \<and>
   documents (ex_db_with (ex_transaction draft 1000 110 1110) [ex_item 1000]) = [] \<and>
   documents (snd (generateDocument ex_clock ex_html True (ex_generate invoice)
          (ex_db_with (ex_transaction draft 1000 110 1110) [ex_item 1000])))
     = [\<lparr>d_id = 1, d_transaction_id = 1, d_document_type = invoice, document_number = ''TEMP'',
         document_date = clock_now ex_clock, recipient_name = None, custom_notes = None,
         html_content = [], d_created_at = clock_now ex_clock\<rparr>]"
proof -
  let ?d = "ex_db_with (ex_transaction draft 1000 110 1110) [ex_item 1000]"
  have t: "select_transaction ?d (g_transaction_id (ex_generate invoice))
             = ex_transaction draft 1000 110 1110 # []"
    using ex_select_transaction [of draft 1000 110 1110] by (simp add: ex_generate_def)
  have ir: "select_items_joined ?d (g_transaction_id (ex_generate invoice))
             = (ex_item 1000, ex_catalog_item) # []"
    using ex_select_items_joined [of _ 1000] by (simp add: ex_generate_def)
  have sp: "store_profiles ?d = ex_store # []"
    by (simp add: ex_db_with_def ex_db_def)
  have fresh: "\<not> list_ex (\<lambda>r. d_id r = next_document_id ?d) (documents ?d)"
    by (simp add: ex_db_with_def ex_db_def)
  have docs: "documents ?d = []" and next1: "next_document_id ?d = Suc 0"
    by (simp_all add: ex_db_with_def ex_db_def)
  show ?thesis
    unfolding generateDocument_loaded [OF t ir sp fresh, of ex_clock ex_html True]
    by (simp add: docs next1 placeholder_document_def ex_generate_def)
qed

text \<open>
  C9. For an existing transaction, updateTransaction with only the id and a status value
  returns the stored row with the status and the audit timestamp updated_at replaced, and
  leaves a database that differs from the old one only in those two fields of the rows
  with that id: the monetary fields and flags, every other scalar field, the item rows
  and the documents table are unchanged, and no document is added.
\<close>

theorem updateTransaction_status_only:
  assumes "select_transaction d i = t # ts"
  shows "updateTransaction clk ((only_id i)\<lparr>u_status := Some s\<rparr>) d =
           (Inr (t\<lparr>status := s, t_updated_at := clock_now clk\<rparr>),
            d\<lparr>transactions :=
                map (\<lambda>r. if t_id r = i then r\<lparr>status := s, t_updated_at := clock_now clk\<rparr> else r)
                  (transactions d)\<rparr>) \<and>
         transaction_items (snd (updateTransaction clk ((only_id i)\<lparr>u_status := Some s\<rparr>) d))
           = transaction_items d \<and>
         documents (snd (updateTransaction clk ((only_id i)\<lparr>u_status := Some s\<rparr>) d))
           = documents d"
proof -
  have sel: "select_transaction d (u_id ((only_id i)\<lparr>u_status := Some s\<rparr>)) = t # ts"
    using assms by simp
  have patch: "update_patch clk ((only_id i)\<lparr>u_status := Some s\<rparr>) d t =
                 (\<lambda>r. r\<lparr>status := s, t_updated_at := clock_now clk\<rparr>)"
    by (rule ext) (simp add: update_patch_def basicFields_status_only)
  show ?thesis
    unfolding updateTransaction_found [OF sel] patch by simp
qed

theorem updateTransaction_status_only_witness:
  "updateTransaction ex_clock ((only_id 1)\<lparr>u_status := Some confirmed\<rparr>)
     (ex_db_with (ex_transaction draft 1000 110 1110) [ex_item 1000]) =
   (Inr ((ex_transaction draft 1000 110 1110)\<lparr>status := confirmed, t_updated_at := clock_now ex_clock\<rparr>),
    (ex_db_with (ex_transaction draft 1000 110 1110) [ex_item 1000])
      \<lparr>transactions :=
         map (\<lambda>r. if t_id r = 1 then r\<lparr>status := confirmed, t_updated_at := clock_now ex_clock\<rparr> else r)
           (transactions (ex_db_with (ex_transaction draft 1000 110 1110) [ex_item 1000]))\<rparr>) \<and>
   documents (snd (updateTransaction ex_clock ((only_id 1)\<lparr>u_status := Some confirmed\<rparr>)
     (ex_db_with (ex_transaction draft 1000 110 1110) [ex_item 1000]))) = []"
proof -
  have "documents (ex_db_with (ex_transaction draft 1000 110 1110) [ex_item 1000]) = []"
    by (simp add: ex_db_with_def ex_db_def)
  with updateTransaction_status_only
         [OF ex_select_transaction [of draft 1000 110 1110 "[ex_item 1000]"], of ex_clock confirmed]
  show ?thesis by simp
qed

text \<open>
  C10. updateTransaction does not restrict status transitions: for an existing transaction
  in any status and any requested status, whatever else the input supplies, the update
  returns a transaction with the requested status, and every stored row with that id
  carries it afterwards.
\<close>

theorem updateTransaction_any_status:
  assumes "select_transaction d (u_id input) \<noteq> []"
    and "u_status input = Some s"
  shows "\<exists>u d'. updateTransaction clk input d = (Inr u, d') \<and> status u = s \<and>
           select_transaction d' (u_id input) \<noteq> [] \<and>
           list_all (\<lambda>r. status r = s) (select_transaction d' (u_id input))"
proof -
  from assms(1) obtain t ts where sel: "select_transaction d (u_id input) = t # ts"
    by (cases "select_transaction d (u_id input)") simp_all
  show ?thesis
    unfolding updateTransaction_found [OF sel]
    using assms(2) sel
    by (simp add: select_transaction_updated update_patch_status list_all_iff)
qed

theorem updateTransaction_any_status_witness:
  "\<exists>u d'. updateTransaction ex_clock ((only_id 1)\<lparr>u_status := Some draft\<rparr>)
             (ex_db_with (ex_transaction paid 1000 110 1110) [ex_item 1000]) = (Inr u, d') \<and>
          status u = draft \<and>
          select_transaction d' 1 \<noteq> [] \<and>
          list_all (\<lambda>r. status r = draft) (select_transaction d' 1)"
proof -
  have "select_transaction (ex_db_with (ex_transaction paid 1000 110 1110) [ex_item 1000])
          (u_id ((only_id 1)\<lparr>u_status := Some draft\<rparr>)) \<noteq> []"
    using ex_select_transaction [of paid 1000 110 1110] by simp
  from updateTransaction_any_status [OF this, of draft ex_clock]
  show ?thesis by (simp add: only_id_def)
qed

end
